theory Spec2Isabelle
  imports Main
begin

section \<open>Lifecycle of Server and ApiServer (src/server.ts, src/api/server.ts)\<close>

text \<open>
  The two classes are embedded with explicit state passing. Objects of class
  \<open>ApiServer\<close> live in a store indexed by references, so that "the same instance"
  is equality of references. A Promise is the value it settles with, or \<open>Pending\<close>
  when it never settles; \<open>await\<close> on a pending promise leaves the awaiting call
  pending as well. What the HTTP library does on \<open>listen\<close> and \<open>close\<close> is not
  decided by this repository: it is an argument of each operation.
\<close>

type_synonym api_ref = nat
type_synonym server_ref = nat
type_synonym handle = nat

text \<open>A thrown or rejected value (always truthy, as an \<open>Error\<close> object is).\<close>

datatype error = Error string

datatype 'a promise = Resolved 'a | Rejected error | Pending

text \<open>
  \<open>OLD_SERVER.close(cb)\<close>: the library invokes the callback (the code ignores
  whatever argument it is given), or throws synchronously, or never calls back.
\<close>

datatype close_outcome =
    CloseCallback "error option"
  | CloseThrows error
  | CloseNever

text \<open>
  \<open>NEW_APP.listen(8888, cb)\<close> followed by \<open>newServer.once('error', ...)\<close>:
  something in the \<open>try\<close> block throws, or the callback is invoked (with or without
  an error) for the listener \<open>newServer\<close>, or the listener emits \<open>error\<close>, or
  nothing ever happens.
\<close>

datatype listen_outcome =
    ListenThrows error
  | ListenCallback "error option" handle
  | ListenErrorEvent error
  | ListenNever

text \<open>
  Calls observed on ApiServer objects and on the HTTP library, in order.
  \<open>HttpListen port\<close> stands for the \<open>try\<close> block of \<open>ApiServer.start()\<close>, which
  creates the application, registers the route and calls \<open>listen(port)\<close>.
\<close>

datatype event =
    ApiStart api_ref
  | ApiStop api_ref
  | HttpListen nat
  | HttpClose handle

text \<open>Class \<open>ApiServer\<close>: fields \<open>_httpServer\<close> and \<open>_SERVER\<close>.\<close>

record api_server =
  httpServer :: "handle option"
  SERVER :: server_ref

text \<open>
  Class \<open>Server\<close> (fields \<open>_api\<close>, \<open>_isRunning\<close>) at reference \<open>self\<close>, together
  with the store of ApiServer objects, the next unused reference and the trace.
\<close>

record state =
  self :: server_ref
  srv_api :: "api_ref option"
  srv_isRunning :: bool
  apis :: "api_ref \<Rightarrow> api_server"
  next_ref :: api_ref
  trace :: "event list"

definition log_event :: "event \<Rightarrow> state \<Rightarrow> state" where
  "log_event ev s = s\<lparr>trace := trace s @ [ev]\<rparr>"

subsection \<open>ApiServer\<close>

text \<open>\<open>constructor(server)\<close>: a new object whose \<open>_httpServer\<close> is not set.\<close>

definition new_ApiServer :: "state \<Rightarrow> api_ref \<times> state" where
  "new_ApiServer s =
     (next_ref s,
      s\<lparr>apis := (apis s)(next_ref s := \<lparr>httpServer = None, SERVER = self s\<rparr>),
        next_ref := Suc (next_ref s)\<rparr>)"

text \<open>\<open>get isRunning\<close>: \<open>!!this._httpServer\<close>.\<close>

definition ApiServer_isRunning :: "api_server \<Rightarrow> bool" where
  "ApiServer_isRunning a = (httpServer a \<noteq> None)"

text \<open>\<open>get server\<close>.\<close>

definition ApiServer_server :: "api_server \<Rightarrow> server_ref" where
  "ApiServer_server a = SERVER a"

definition set_httpServer :: "api_ref \<Rightarrow> handle option \<Rightarrow> state \<Rightarrow> state" where
  "set_httpServer r h s = s\<lparr>apis := (apis s)(r := (apis s r)\<lparr>httpServer := h\<rparr>)\<rparr>"

text \<open>\<open>ApiServer.start()\<close>, on the object at reference \<open>r\<close>.\<close>

definition ApiServer_start :: "api_ref \<Rightarrow> state \<Rightarrow> listen_outcome \<Rightarrow> bool promise \<times> state" where
  "ApiServer_start r s0 l =
     (let s = log_event (ApiStart r) s0 in
      if ApiServer_isRunning (apis s r) then (Resolved False, s)
      else
        (let s1 = log_event (HttpListen 8888) s in
         case l of
           ListenThrows e \<Rightarrow> (Rejected e, s1)
         | ListenCallback err newServer \<Rightarrow>
             (case err of
                Some e \<Rightarrow> (Rejected e, s1)
              | None \<Rightarrow> (Resolved True, set_httpServer r (Some newServer) s1))
         | ListenErrorEvent e \<Rightarrow> (Rejected e, s1)
         | ListenNever \<Rightarrow> (Pending, s1)))"

text \<open>\<open>ApiServer.stop()\<close>, on the object at reference \<open>r\<close>.\<close>

definition ApiServer_stop :: "api_ref \<Rightarrow> state \<Rightarrow> close_outcome \<Rightarrow> bool promise \<times> state" where
  "ApiServer_stop r s0 c =
     (let s = log_event (ApiStop r) s0 in
      case httpServer (apis s r) of
        Some OLD_SERVER \<Rightarrow>
          (let s1 = log_event (HttpClose OLD_SERVER) s in
           case c of
             CloseCallback _ \<Rightarrow> (Resolved True, set_httpServer r None s1)
           | CloseThrows e \<Rightarrow> (Rejected e, s1)
           | CloseNever \<Rightarrow> (Pending, s1))
      | None \<Rightarrow> (Resolved False, s))"

subsection \<open>Server\<close>

text \<open>A Server as the class initialises it: \<open>_api\<close> unset, \<open>_isRunning = false\<close>.\<close>

definition new_Server :: state where
  "new_Server =
     \<lparr>self = 0, srv_api = None, srv_isRunning = False,
      apis = (\<lambda>_. \<lparr>httpServer = None, SERVER = 0\<rparr>), next_ref = 0, trace = []\<rparr>"

text \<open>\<open>get api\<close> and \<open>get isRunning\<close>.\<close>

definition api :: "state \<Rightarrow> api_ref option" where
  "api s = srv_api s"

definition isRunning :: "state \<Rightarrow> bool" where
  "isRunning s = srv_isRunning s"

text \<open>\<open>disposeOldApi(throwOnError = true)\<close>.\<close>

definition disposeOldApi :: "bool \<Rightarrow> state \<Rightarrow> close_outcome \<Rightarrow> bool promise \<times> state" where
  "disposeOldApi throwOnError s c =
     (case srv_api s of
        Some OLD_API \<Rightarrow>
          (case ApiServer_stop OLD_API s c of
             (Resolved _, s') \<Rightarrow> (Resolved True, s')
           | (Rejected e, s') \<Rightarrow> (if throwOnError then Rejected e else Resolved False, s')
           | (Pending, s') \<Rightarrow> (Pending, s'))
      | None \<Rightarrow> (Resolved True, s))"

text \<open>
  What the HTTP library does during one \<open>Server.start()\<close>: on the close of the
  first \<open>disposeOldApi()\<close>, on the listen of the new ApiServer, and on the close of
  the \<open>disposeOldApi(false)\<close> of the \<open>catch\<close> block.
\<close>

record start_env =
  dispose_close :: close_outcome
  listen :: listen_outcome
  cleanup_close :: close_outcome

text \<open>
  The \<open>catch (e)\<close> block of \<open>Server.start()\<close>. A rejection of the awaited cleanup
  would leave the \<open>async\<close> executor without ever calling \<open>reject\<close>.
\<close>

definition start_catch :: "error \<Rightarrow> state \<Rightarrow> close_outcome \<Rightarrow> bool promise \<times> state" where
  "start_catch e s c =
     (case disposeOldApi False s c of
        (Resolved _, s') \<Rightarrow> (Rejected e, s'\<lparr>srv_isRunning := False\<rparr>)
      | (Rejected _, s') \<Rightarrow> (Pending, s')
      | (Pending, s') \<Rightarrow> (Pending, s'))"

text \<open>The \<open>try\<close> block of \<open>Server.start()\<close>; a rejected \<open>await\<close> leaves it by throwing.\<close>

definition start_try :: "state \<Rightarrow> start_env \<Rightarrow> bool promise \<times> state" where
  "start_try s env =
     (case disposeOldApi True s (dispose_close env) of
        (Resolved _, s1) \<Rightarrow>
          (case new_ApiServer s1 of
             (NEW_API, s2) \<Rightarrow>
               (case ApiServer_start NEW_API s2 (listen env) of
                  (Resolved _, s3) \<Rightarrow>
                    (Resolved True, s3\<lparr>srv_api := Some NEW_API, srv_isRunning := True\<rparr>)
                | (Rejected e, s3) \<Rightarrow> (Rejected e, s3)
                | (Pending, s3) \<Rightarrow> (Pending, s3)))
      | (Rejected e, s1) \<Rightarrow> (Rejected e, s1)
      | (Pending, s1) \<Rightarrow> (Pending, s1))"

text \<open>\<open>Server.start()\<close>.\<close>

definition Server_start :: "state \<Rightarrow> start_env \<Rightarrow> bool promise \<times> state" where
  "Server_start s env =
     (if isRunning s then (Resolved False, s)
      else
        (case start_try s env of
           (Resolved b, s') \<Rightarrow> (Resolved b, s')
         | (Rejected e, s') \<Rightarrow> start_catch e s' (cleanup_close env)
         | (Pending, s') \<Rightarrow> (Pending, s')))"

text \<open>\<open>Server.stop()\<close>.\<close>

definition Server_stop :: "state \<Rightarrow> close_outcome \<Rightarrow> bool promise \<times> state" where
  "Server_stop s c =
     (if \<not> isRunning s then (Resolved False, s)
      else
        (case disposeOldApi True s c of
           (Resolved _, s1) \<Rightarrow> (Resolved True, s1\<lparr>srv_isRunning := False\<rparr>)
         | (Rejected e, s1) \<Rightarrow> (Rejected e, s1\<lparr>srv_isRunning := True\<rparr>)
         | (Pending, s1) \<Rightarrow> (Pending, s1)))"

text \<open>
  A sequence of lifecycle calls, each issued after the previous one has settled.
  The sequence is completed when every call settles; \<open>None\<close> when one stays pending.
\<close>

datatype lifecycle_call = Start start_env | Stop close_outcome

fun exec_call :: "state \<Rightarrow> lifecycle_call \<Rightarrow> bool promise \<times> state" where
  "exec_call s (Start env) = Server_start s env"
| "exec_call s (Stop c) = Server_stop s c"

fun run :: "state \<Rightarrow> lifecycle_call list \<Rightarrow> state option" where
  "run s [] = Some s"
| "run s (c # cs) =
     (case exec_call s c of
        (Pending, _) \<Rightarrow> None
      | (_, s') \<Rightarrow> run s' cs)"

section \<open>Request handling (src/api/server.ts)\<close>

subsection \<open>JavaScript values and \<open>JSON.stringify\<close>\<close>

text \<open>
  The values the handlers pass around. A number is an integer here; an object is
  the list of its own enumerable string-keyed properties in insertion order, with
  distinct keys. Characters are bytes, so a string is its UTF-8 encoding.
\<close>

datatype js_value =
    JUndefined
  | JNull
  | JBool bool
  | JNum int
  | JStr string
  | JArr "js_value list"
  | JObj "(string \<times> js_value) list"

definition digit_char :: "nat \<Rightarrow> char" where
  "digit_char n = ''0123456789abcdef'' ! (n mod 16)"

text \<open>Number to decimal string, as a template literal or \<open>JSON.stringify\<close> converts it.\<close>

fun string_of_nat :: "nat \<Rightarrow> string" where
  "string_of_nat n =
     (if n < 10 then [digit_char n] else string_of_nat (n div 10) @ [digit_char (n mod 10)])"

declare string_of_nat.simps [simp del]

definition string_of_int :: "int \<Rightarrow> string" where
  "string_of_int i = (if i < 0 then ''-'' @ string_of_nat (nat (- i)) else string_of_nat (nat i))"

text \<open>
  \<open>QuoteJSONString\<close>: the double quote (0x22) and the backslash (0x5C) are escaped,
  control characters below 0x20 are written as their short escape or as \<open>\u00XX\<close>.
\<close>

definition escape_char :: "char \<Rightarrow> string" where
  "escape_char c =
     (let n = (of_char c :: nat) in
      if n = 0x22 then [CHR 0x5C, CHR 0x22]
      else if n = 0x5C then [CHR 0x5C, CHR 0x5C]
      else if n = 0x08 then [CHR 0x5C, CHR ''b'']
      else if n = 0x09 then [CHR 0x5C, CHR ''t'']
      else if n = 0x0A then [CHR 0x5C, CHR ''n'']
      else if n = 0x0C then [CHR 0x5C, CHR ''f'']
      else if n = 0x0D then [CHR 0x5C, CHR ''r'']
      else if n < 0x20 then [CHR 0x5C, CHR ''u'', CHR ''0'', CHR ''0'', digit_char (n div 16), digit_char (n mod 16)]
      else [c])"

definition JSON_quote :: "string \<Rightarrow> string" where
  "JSON_quote s = [CHR 0x22] @ concat (map escape_char s) @ [CHR 0x22]"

fun join :: "string \<Rightarrow> string list \<Rightarrow> string" where
  "join sep [] = []"
| "join sep [x] = x"
| "join sep (x # y # ys) = x @ sep @ join sep (y # ys)"

text \<open>
  \<open>JSON.stringify(value)\<close>; \<open>None\<close> is the result \<open>undefined\<close>. A property whose
  value is \<open>undefined\<close> is left out of an object; an \<open>undefined\<close> array element is
  written \<open>null\<close>.
\<close>

fun JSON_stringify :: "js_value \<Rightarrow> string option"
  and stringify_elems :: "js_value list \<Rightarrow> string list"
  and stringify_props :: "(string \<times> js_value) list \<Rightarrow> string list" where
  "JSON_stringify JUndefined = None"
| "JSON_stringify JNull = Some ''null''"
| "JSON_stringify (JBool b) = Some (if b then ''true'' else ''false'')"
| "JSON_stringify (JNum n) = Some (string_of_int n)"
| "JSON_stringify (JStr s) = Some (JSON_quote s)"
| "JSON_stringify (JArr xs) = Some (''['' @ join '','' (stringify_elems xs) @ '']'')"
| "JSON_stringify (JObj kvs) = Some (''{'' @ join '','' (stringify_props kvs) @ ''}'')"
| "stringify_elems [] = []"
| "stringify_elems (x # xs) =
     (case JSON_stringify x of None \<Rightarrow> ''null'' | Some t \<Rightarrow> t) # stringify_elems xs"
| "stringify_props [] = []"
| "stringify_props ((k, v) # kvs) =
     (case JSON_stringify v of
        None \<Rightarrow> stringify_props kvs
      | Some t \<Rightarrow> (JSON_quote k @ '':'' @ t) # stringify_props kvs)"

subsection \<open>Request and response objects of the web framework\<close>

text \<open>
  Of the request the route reads \<open>req.connection.remoteAddress\<close> and
  \<open>req.connection.remotePort\<close> (either may be \<open>undefined\<close>); \<open>utc_now\<close> is what
  \<open>Moment.utc().toISOString()\<close> returns while the request is handled.
\<close>

record request =
  remoteAddress :: "string option"
  remotePort :: "nat option"
  utc_now :: string

text \<open>
  The response object: status code, \<open>Content-Type\<close> header, the body once sent,
  whether the headers are sent, and whether the property \<open>sendJsonResult\<close> has
  been attached.
\<close>

record response =
  statusCode :: nat
  content_type :: "string option"
  body :: "string option"
  headersSent :: bool
  hasSendJsonResult :: bool

text \<open>The response the framework hands to a route: status 200, nothing sent.\<close>

definition new_response :: response where
  "new_response =
     \<lparr>statusCode = 200, content_type = None, body = None, headersSent = False,
      hasSendJsonResult = False\<rparr>"

text \<open>
  The framework's \<open>contentType\<close>, \<open>send\<close> and \<open>sendStatus\<close>, by their documented
  contract: each throws once the headers are sent; \<open>send\<close> of a Buffer keeps a
  content type already set; \<open>sendStatus\<close> sets the code and sends its text.
\<close>

definition headers_sent_error :: error where
  "headers_sent_error = Error ''ERR_HTTP_HEADERS_SENT''"

definition contentType :: "string \<Rightarrow> response \<Rightarrow> error + response" where
  "contentType t r =
     (if headersSent r then Inl headers_sent_error else Inr (r\<lparr>content_type := Some t\<rparr>))"

definition send :: "string \<Rightarrow> response \<Rightarrow> error + response" where
  "send buf r =
     (if headersSent r then Inl headers_sent_error
      else Inr (r\<lparr>content_type :=
                    (case content_type r of
                       None \<Rightarrow> Some ''application/octet-stream''
                     | Some t \<Rightarrow> Some t),
                  body := Some buf, headersSent := True\<rparr>))"

definition status_text :: "nat \<Rightarrow> string" where
  "status_text code = (if code = 500 then ''Internal Server Error'' else string_of_nat code)"

definition sendStatus :: "nat \<Rightarrow> response \<Rightarrow> error + response" where
  "sendStatus code r =
     (if headersSent r then Inl headers_sent_error
      else Inr (r\<lparr>statusCode := code, content_type := Some ''text/plain; charset=utf-8'',
                  body := Some (status_text code), headersSent := True\<rparr>))"

subsection \<open>\<open>sendJsonResult\<close>, the safe handler and the route\<close>

text \<open>
  The \<open>this\<close> of a handler call: an ApiServer object or any other value
  (\<open>ThisVal JUndefined\<close> is \<open>undefined\<close>).
\<close>

datatype this_value = ThisObj api_ref | ThisVal js_value

text \<open>
  A handler, called as \<open>handler.apply(this, [req, resp, next])\<close>: it leaves the
  response in some state and either returns a value or throws.
\<close>

type_synonym handler = "this_value \<Rightarrow> request \<Rightarrow> response \<Rightarrow> response \<times> (error + js_value)"

type_synonym safe_handler = "request \<Rightarrow> response \<Rightarrow> response \<times> (error + js_value)"

text \<open>
  \<open>resp.sendJsonResult(data?, code = 0, msg?)\<close>, as the wrapper attaches it; an
  omitted argument is \<open>JUndefined\<close>. It returns \<open>this\<close>, the response.
\<close>

definition sendJsonResult :: "response \<Rightarrow> js_value \<Rightarrow> js_value \<Rightarrow> js_value \<Rightarrow> error + response" where
  "sendJsonResult resp data code_arg msg =
     (let code = (if code_arg = JUndefined then JNum 0 else code_arg) in
      case contentType ''application/json; charset=utf-8'' resp of
        Inl e \<Rightarrow> Inl e
      | Inr resp1 \<Rightarrow>
          (case JSON_stringify (JObj [(''code'', code), (''msg'', msg), (''data'', data)]) of
             None \<Rightarrow> Inl (Error ''TypeError'')
           | Some str \<Rightarrow> send str resp1))"

text \<open>
  \<open>getRequestHandlerSafe(handler, thisArgs?)\<close> of the ApiServer \<open>this\<close>. The
  handler is \<open>None\<close> when it is falsy; \<open>thisArgs_arg\<close> is \<open>None\<close> when fewer than
  two arguments are passed (\<open>arguments.length < 2\<close>) and \<open>Some t\<close> when \<open>t\<close> is
  passed, \<open>undefined\<close> included.
\<close>

definition getRequestHandlerSafe :: "api_ref \<Rightarrow> handler option \<Rightarrow> this_value option \<Rightarrow> safe_handler" where
  "getRequestHandlerSafe this handler thisArgs_arg =
     (let thisArgs = (case thisArgs_arg of None \<Rightarrow> ThisObj this | Some t \<Rightarrow> t) in
      case handler of
        Some h \<Rightarrow>
          (\<lambda>req resp.
             case h thisArgs req (resp\<lparr>hasSendJsonResult := True\<rparr>) of
               (resp1, Inr v) \<Rightarrow> (resp1, Inr v)
             | (resp1, Inl e) \<Rightarrow>
                 (case sendStatus 500 resp1 of
                    Inr resp2 \<Rightarrow> (resp2, Inr JUndefined)
                  | Inl e2 \<Rightarrow> (resp1, Inr JUndefined)))
      | None \<Rightarrow>
          (\<lambda>req resp.
             case sendStatus 500 resp of
               Inr resp2 \<Rightarrow> (resp2, Inr JUndefined)
             | Inl e \<Rightarrow> (resp, Inr JUndefined)))"

text \<open>The template literal \<open>`${remoteAddress}:${remotePort}`\<close>.\<close>

definition you_of :: "request \<Rightarrow> string" where
  "you_of req =
     (case remoteAddress req of None \<Rightarrow> ''undefined'' | Some a \<Rightarrow> a) @ '':'' @
     (case remotePort req of None \<Rightarrow> ''undefined'' | Some p \<Rightarrow> string_of_nat p)"

text \<open>
  The arrow function registered for \<open>GET /\<close>. Calling \<open>resp.sendJsonResult\<close> on a
  response that lacks the property throws a TypeError.
\<close>

definition root_handler :: handler where
  "root_handler this req resp =
     (if hasSendJsonResult resp then
        (case sendJsonResult resp
                (JObj [(''now'', JStr (utc_now req)), (''you'', JStr (you_of req))])
                JUndefined JUndefined of
           Inl e \<Rightarrow> (resp, Inl e)
         | Inr resp1 \<Rightarrow> (resp1, Inr JUndefined))
      else (resp, Inl (Error ''TypeError'')))"

text \<open>
  An application of the framework is its routes in registration order; a request
  is served by the first route with its method and path.
\<close>

type_synonym app = "(string \<times> string \<times> safe_handler) list"

definition Express :: app where
  "Express = []"

definition app_get :: "string \<Rightarrow> safe_handler \<Rightarrow> app \<Rightarrow> app" where
  "app_get path h a = a @ [(''GET'', path, h)]"

fun dispatch :: "app \<Rightarrow> string \<Rightarrow> string \<Rightarrow> request \<Rightarrow> response \<Rightarrow> (response \<times> (error + js_value)) option" where
  "dispatch [] method path req resp = None"
| "dispatch ((m, p, h) # routes) method path req resp =
     (if m = method \<and> p = path then Some (h req resp) else dispatch routes method path req resp)"

text \<open>\<open>initializeApp(app)\<close> of the ApiServer \<open>this\<close>; \<open>None\<close> is a falsy \<open>app\<close>.\<close>

definition initializeApp :: "api_ref \<Rightarrow> app option \<Rightarrow> bool \<times> app option" where
  "initializeApp this a =
     (case a of
        None \<Rightarrow> (False, None)
      | Some NEW_APP \<Rightarrow>
          (True, Some (app_get ''/'' (getRequestHandlerSafe this (Some root_handler) None) NEW_APP)))"

text \<open>
  A request \<open>GET /\<close> to the application that \<open>start()\<close> builds
  (\<open>ME.initializeApp(Express())\<close>), and the body it is answered with.
\<close>

definition GET_root :: "api_ref \<Rightarrow> request \<Rightarrow> (response \<times> (error + js_value)) option" where
  "GET_root this req =
     (case snd (initializeApp this (Some Express)) of
        None \<Rightarrow> None
      | Some a \<Rightarrow> dispatch a ''GET'' ''/'' req new_response)"

definition GET_root_body :: "api_ref \<Rightarrow> request \<Rightarrow> string option" where
  "GET_root_body this req = (case GET_root this req of None \<Rightarrow> None | Some (resp, _) \<Rightarrow> body resp)"

text \<open>
  The body as the specification words it:
  \<open>{"code":0,"msg":null,"data":{"now":"<timestamp>","you":"<ip>:<port>"}}\<close>.
\<close>

definition spec_envelope :: "string \<Rightarrow> string \<Rightarrow> string" where
  \<open>spec_envelope now you =
     ''{"code":0,"msg":null,"data":{"now":"'' @ now @ ''","you":"'' @ you @ ''"}}''\<close>

text \<open>The body without the \<open>msg\<close> property.\<close>

definition envelope_without_msg :: "string \<Rightarrow> string \<Rightarrow> string" where
  \<open>envelope_without_msg now you =
     ''{"code":0,"data":{"now":'' @ JSON_quote now @ '',"you":'' @ JSON_quote you @ ''}}''\<close>

section \<open>Properties and sample values\<close>

text \<open>The invariant of \<open>Server\<close>: while it is running, \<open>api\<close> is present.\<close>

definition api_present :: "state \<Rightarrow> bool" where
  "api_present s = (isRunning s \<longrightarrow> api s \<noteq> None)"

text \<open>
  References are handed out in increasing order, as \<open>new\<close> returns an object
  distinct from every existing one: a stored reference is below \<open>next_ref\<close>.
\<close>

definition refs_allocated :: "state \<Rightarrow> bool" where
  "refs_allocated s = (\<forall>r. srv_api s = Some r \<longrightarrow> r < next_ref s)"

text \<open>The events a call adds to the trace.\<close>

definition new_events :: "state \<Rightarrow> state \<Rightarrow> event list" where
  "new_events s s' = drop (length (trace s)) (trace s')"

text \<open>An environment in which every library call succeeds, binding listener \<open>h\<close>.\<close>

definition ok_env :: "handle \<Rightarrow> start_env" where
  "ok_env h =
     \<lparr>dispose_close = CloseCallback None, listen = ListenCallback None h,
      cleanup_close = CloseCallback None\<rparr>"

text \<open>An environment in which the bind fails and a cleanup close would throw.\<close>

definition bind_fails_env :: start_env where
  "bind_fails_env =
     \<lparr>dispose_close = CloseCallback None, listen = ListenErrorEvent (Error ''EADDRINUSE''),
      cleanup_close = CloseThrows (Error ''cleanup'')\<rparr>"

text \<open>An environment in which every close throws.\<close>

definition close_fails_env :: start_env where
  "close_fails_env =
     \<lparr>dispose_close = CloseThrows (Error ''first''), listen = ListenCallback None 9,
      cleanup_close = CloseThrows (Error ''cleanup'')\<rparr>"

text \<open>A started Server, and the same Server stopped again.\<close>

definition running_Server :: state where
  "running_Server = snd (Server_start new_Server (ok_env 7))"

definition stopped_Server :: state where
  "stopped_Server = snd (Server_stop running_Server (CloseCallback None))"



text \<open>A request from 127.0.0.1, port 54321.\<close>

definition sample_request :: request where
  "sample_request =
     \<lparr>remoteAddress = Some ''127.0.0.1'', remotePort = Some 54321,
      utc_now = ''2017-11-05T10:00:00.000Z''\<rparr>"

text \<open>Handlers that throw: at once, and after having sent a response.\<close>

definition throwing_handler :: handler where
  "throwing_handler this req resp = (resp, Inl (Error ''boom''))"

definition send_then_throw_handler :: handler where
  "send_then_throw_handler this req resp =
     (case send ''partial'' resp of
        Inl e \<Rightarrow> (resp, Inl e)
      | Inr resp1 \<Rightarrow> (resp1, Inl (Error ''boom'')))"

text \<open>A handler that reports whether its \<open>this\<close> is \<open>undefined\<close>.\<close>

definition this_probe :: handler where
  "this_probe this req resp =
     (resp, Inr (JBool (this = ThisVal JUndefined)))"

section \<open>Lifecycle theorems\<close>

lemmas lifecycle_defs =
  ApiServer_start_def ApiServer_stop_def disposeOldApi_def start_catch_def start_try_def
  Server_start_def Server_stop_def new_ApiServer_def log_event_def set_httpServer_def
  isRunning_def api_def ApiServer_isRunning_def Let_def

lemmas lifecycle_splits =
  option.splits close_outcome.splits listen_outcome.splits promise.splits prod.splits if_splits

lemmas sample_defs =
  running_Server_def stopped_Server_def new_Server_def ok_env_def bind_fails_env_def
  close_fails_env_def

subsection \<open>What the helpers leave unchanged\<close>

lemma disposeOldApi_frame:
  "srv_api (snd (disposeOldApi t s c)) = srv_api s \<and>
   srv_isRunning (snd (disposeOldApi t s c)) = srv_isRunning s \<and>
   next_ref (snd (disposeOldApi t s c)) = next_ref s"
  by (simp add: lifecycle_defs split: lifecycle_splits)

lemma disposeOldApi_rejects_iff:
  "fst (disposeOldApi True s c) = Rejected e \<longleftrightarrow>
   (\<exists>r h. srv_api s = Some r \<and> httpServer (apis s r) = Some h \<and> c = CloseThrows e)"
  by (auto simp: lifecycle_defs split: lifecycle_splits)




lemma refs_allocated_new: "refs_allocated new_Server"
  by (simp add: refs_allocated_def new_Server_def)

lemma refs_allocated_start: "refs_allocated s \<Longrightarrow> refs_allocated (snd (Server_start s env))"
  by (auto simp: lifecycle_defs refs_allocated_def split: lifecycle_splits)

lemma refs_allocated_stop: "refs_allocated s \<Longrightarrow> refs_allocated (snd (Server_stop s c))"
  by (auto simp: lifecycle_defs refs_allocated_def split: lifecycle_splits)

subsection \<open>The invariant\<close>

lemma Server_stop_inv: "api_present s \<Longrightarrow> api_present (snd (Server_stop s c))"
  by (auto simp: api_present_def lifecycle_defs split: lifecycle_splits)

lemma Server_start_inv: "api_present s \<Longrightarrow> api_present (snd (Server_start s env))"
  by (auto simp: api_present_def lifecycle_defs split: lifecycle_splits)

lemma exec_call_inv: "api_present s \<Longrightarrow> api_present (snd (exec_call s call))"
  by (cases call) (simp_all add: Server_stop_inv Server_start_inv)

lemma run_inv: "api_present s \<Longrightarrow> run s calls = Some s' \<Longrightarrow> api_present s'"
proof (induction calls arbitrary: s)
  case Nil
  then show ?case by simp
next
  case (Cons c cs)
  obtain p s1 where ex: "exec_call s c = (p, s1)" by (cases "exec_call s c")
  with Cons.prems(2) have "run s1 cs = Some s'" by (cases p) simp_all
  moreover have "api_present s1" using exec_call_inv [OF Cons.prems(1), of c] ex by simp
  ultimately show ?case by (rule Cons.IH [rotated])
qed

lemma api_present_new: "api_present new_Server"
  by (simp add: api_present_def new_Server_def isRunning_def)

subsection \<open>Sample states, evaluated\<close>

lemma running_Server_fields:
  "srv_isRunning running_Server \<and> srv_api running_Server = Some 0 \<and>
   httpServer (apis running_Server 0) = Some 7 \<and> next_ref running_Server = 1 \<and>
   trace running_Server = [ApiStart 0, HttpListen 8888]"
  by (simp add: sample_defs lifecycle_defs)

lemma stopped_Server_fields:
  "\<not> srv_isRunning stopped_Server \<and> srv_api stopped_Server = Some 0 \<and>
   httpServer (apis stopped_Server 0) = None \<and> next_ref stopped_Server = 1 \<and>
   trace stopped_Server = [ApiStart 0, HttpListen 8888, ApiStop 0, HttpClose 7]"
  by (simp add: sample_defs lifecycle_defs)

subsection \<open>Claims\<close>

text \<open>
  C2. For a running Server, if the disposal of the current ApiServer rejects with
  \<open>e\<close>, then \<open>stop()\<close> rejects with that same \<open>e\<close> and \<open>isRunning\<close> is true
  afterwards.
\<close>

theorem Server_stop_rollback:
  assumes "isRunning s" and "fst (disposeOldApi True s c) = Rejected e"
  shows "fst (Server_stop s c) = Rejected e \<and> isRunning (snd (Server_stop s c))"
  using assms by (auto simp: Server_stop_def isRunning_def split: lifecycle_splits)

theorem Server_stop_rollback_witness:
  "isRunning running_Server \<and>
   fst (disposeOldApi True running_Server (CloseThrows (Error ''EIO''))) = Rejected (Error ''EIO'') \<and>
   fst (Server_stop running_Server (CloseThrows (Error ''EIO''))) = Rejected (Error ''EIO'') \<and>
   isRunning (snd (Server_stop running_Server (CloseThrows (Error ''EIO''))))"
proof -
  have h1: "isRunning running_Server"
    by (simp add: isRunning_def running_Server_fields)
  have h2: "fst (disposeOldApi True running_Server (CloseThrows (Error ''EIO''))) = Rejected (Error ''EIO'')"
    by (simp add: disposeOldApi_rejects_iff running_Server_fields)
  show ?thesis using h1 h2 Server_stop_rollback [OF h1 h2] by simp
qed





lemma start_catch_pending:
  "fst (disposeOldApi False s c) = Pending \<Longrightarrow> fst (start_catch e s c) = Pending"
  by (cases "disposeOldApi False s c") (auto simp: start_catch_def)




text \<open>
  C4. Every state reached from a new Server by a completed sequence of \<open>start()\<close>
  and \<open>stop()\<close> calls satisfies: if \<open>isRunning\<close> is true then \<open>api\<close> is present;
  and every single call preserves this, whatever the library does.
\<close>

theorem Server_api_present_invariant:
  "(run new_Server calls = Some s \<longrightarrow> api_present s) \<and>
   (api_present s0 \<longrightarrow> api_present (snd (exec_call s0 call)))"
  using run_inv [OF api_present_new, of calls s] exec_call_inv [of s0 call] by blast

theorem Server_api_present_invariant_witness:
  "run new_Server [Start (ok_env 7)] = Some running_Server \<and>
   isRunning running_Server \<and> api running_Server = Some 0 \<and>
   isRunning (snd (exec_call running_Server (Stop (CloseThrows (Error ''EIO''))))) \<and>
   api (snd (exec_call running_Server (Stop (CloseThrows (Error ''EIO''))))) \<noteq> None"
proof -
  have r: "run new_Server [Start (ok_env 7)] = Some running_Server"
    by (simp add: running_Server_def)
      (simp add: sample_defs lifecycle_defs split: promise.splits prod.splits)
  have i: "isRunning running_Server" "api running_Server = Some 0"
    by (simp_all add: isRunning_def api_def running_Server_fields)
  have p: "api_present running_Server"
    by (simp add: api_present_def i)
  have k: "isRunning (snd (exec_call running_Server (Stop (CloseThrows (Error ''EIO'')))))"
    by (simp add: Server_stop_def disposeOldApi_def ApiServer_stop_def log_event_def
        isRunning_def running_Server_fields Let_def)
  note w = Server_api_present_invariant [of "[Start (ok_env 7)]" running_Server running_Server
        "Stop (CloseThrows (Error ''EIO''))"]
  have "api_present (snd (exec_call running_Server (Stop (CloseThrows (Error ''EIO'')))))"
    using w p by blast
  then have "api (snd (exec_call running_Server (Stop (CloseThrows (Error ''EIO''))))) \<noteq> None"
    using k unfolding api_present_def by blast
  then show ?thesis
    using r i k by blast
qed

text \<open>
  C5. From a Server that is not running, when the first \<open>start()\<close> meets no
  failure (the disposal of the previous ApiServer resolves and the listen callback
  reports success), the first call resolves \<open>true\<close> and leaves \<open>isRunning\<close> true;
  a second \<open>start()\<close> then resolves \<open>false\<close> and changes nothing, whatever the
  library would do.
\<close>

theorem Server_start_twice:
  assumes "\<not> isRunning s" and "listen env1 = ListenCallback None h"
    and "fst (disposeOldApi True s (dispose_close env1)) = Resolved True"
  shows "fst (Server_start s env1) = Resolved True \<and>
         isRunning (snd (Server_start s env1)) \<and>
         fst (Server_start (snd (Server_start s env1)) env2) = Resolved False \<and>
         snd (Server_start (snd (Server_start s env1)) env2) = snd (Server_start s env1) \<and>
         isRunning (snd (Server_start (snd (Server_start s env1)) env2))"
proof -
  have first: "fst (Server_start s env1) = Resolved True \<and> isRunning (snd (Server_start s env1))"
    using assms by (auto simp: lifecycle_defs split: lifecycle_splits)
  have second: "Server_start s' env2 = (Resolved False, s')" if "isRunning s'" for s'
    using that by (simp add: Server_start_def)
  show ?thesis
    using first second [of "snd (Server_start s env1)"] by simp
qed

theorem Server_start_twice_witness:
  "\<not> isRunning new_Server \<and> listen (ok_env 7) = ListenCallback None 7 \<and>
   fst (disposeOldApi True new_Server (dispose_close (ok_env 7))) = Resolved True \<and>
   fst (Server_start new_Server (ok_env 7)) = Resolved True \<and>
   isRunning (snd (Server_start new_Server (ok_env 7))) \<and>
   fst (Server_start (snd (Server_start new_Server (ok_env 7))) bind_fails_env) = Resolved False \<and>
   isRunning (snd (Server_start (snd (Server_start new_Server (ok_env 7))) bind_fails_env))"
proof -
  have h1: "\<not> isRunning new_Server" by (simp add: isRunning_def new_Server_def)
  have h2: "listen (ok_env 7) = ListenCallback None 7" by (simp add: ok_env_def)
  have h3: "fst (disposeOldApi True new_Server (dispose_close (ok_env 7))) = Resolved True"
    by (simp add: disposeOldApi_def new_Server_def)
  note w = Server_start_twice [OF h1 h2 h3, of bind_fails_env]
  show ?thesis
    using h1 h2 h3 w [THEN conjunct1] w [THEN conjunct2, THEN conjunct1]
      w [THEN conjunct2, THEN conjunct2, THEN conjunct1]
      w [THEN conjunct2, THEN conjunct2, THEN conjunct2, THEN conjunct2]
    by blast
qed

text \<open>
  C7. \<open>ApiServer.stop()\<close> resolves \<open>false\<close>, without calling the library, when no
  listener handle is stored. Otherwise it calls \<open>close\<close> on the stored listener; it
  resolves \<open>true\<close> exactly when the close calls back, and then the stored handle is
  cleared so that \<open>isRunning\<close> is false; while the close has not called back the
  promise is pending and the handle stays stored.
\<close>

theorem ApiServer_stop_contract:
  "(httpServer (apis s r) = None \<longrightarrow>
      fst (ApiServer_stop r s c) = Resolved False \<and>
      apis (snd (ApiServer_stop r s c)) = apis s \<and>
      trace (snd (ApiServer_stop r s c)) = trace s @ [ApiStop r]) \<and>
   (\<forall>h. httpServer (apis s r) = Some h \<longrightarrow>
      trace (snd (ApiServer_stop r s c)) = trace s @ [ApiStop r, HttpClose h] \<and>
      (fst (ApiServer_stop r s c) = Resolved True \<longleftrightarrow> (\<exists>x. c = CloseCallback x)) \<and>
      ((\<exists>x. c = CloseCallback x) \<longrightarrow>
          httpServer (apis (snd (ApiServer_stop r s c)) r) = None \<and>
          \<not> ApiServer_isRunning (apis (snd (ApiServer_stop r s c)) r)) \<and>
      (c = CloseNever \<longrightarrow>
          fst (ApiServer_stop r s c) = Pending \<and>
          httpServer (apis (snd (ApiServer_stop r s c)) r) = Some h))"
  by (auto simp: ApiServer_stop_def log_event_def set_httpServer_def ApiServer_isRunning_def
      Let_def split: close_outcome.splits)

theorem ApiServer_stop_contract_witness:
  "httpServer (apis new_Server 0) = None \<and>
   fst (ApiServer_stop 0 new_Server (CloseCallback None)) = Resolved False \<and>
   httpServer (apis running_Server 0) = Some 7 \<and>
   fst (ApiServer_stop 0 running_Server (CloseCallback None)) = Resolved True \<and>
   httpServer (apis (snd (ApiServer_stop 0 running_Server (CloseCallback None))) 0) = None \<and>
   trace (snd (ApiServer_stop 0 running_Server (CloseCallback None))) =
     trace running_Server @ [ApiStop 0, HttpClose 7]"
proof -
  have n: "httpServer (apis new_Server 0) = None"
    by (simp add: new_Server_def)
  have b: "httpServer (apis running_Server 0) = Some 7"
    by (simp add: running_Server_fields)
  note w0 = ApiServer_stop_contract [of new_Server 0 "CloseCallback None", THEN conjunct1]
  note w1 = ApiServer_stop_contract [of running_Server 0 "CloseCallback None", THEN conjunct2]
  show ?thesis
    using n b w0 w1 by blast
qed

text \<open>
  C8. For a Server that is not running, if \<open>start()\<close> rejects then \<open>api\<close> is what it
  was before the call; it is not the reference of the ApiServer constructed during
  the call; every \<open>ApiServer.stop()\<close> made during the call is on the previously
  stored ApiServer; and no ApiServer other than that one and the new one is changed.
\<close>

theorem failed_start_keeps_api:
  assumes "\<not> isRunning s" and "refs_allocated s"
    and "fst (Server_start s env) = Rejected e"
  shows "api (snd (Server_start s env)) = api s \<and>
         api (snd (Server_start s env)) \<noteq> Some (next_ref s) \<and>
         (\<forall>r. ApiStop r \<in> set (new_events s (snd (Server_start s env))) \<longrightarrow> api s = Some r) \<and>
         (\<forall>r. r \<noteq> next_ref s \<longrightarrow> api s \<noteq> Some r \<longrightarrow>
              apis (snd (Server_start s env)) r = apis s r)"
  using assms
  by (auto simp: lifecycle_defs refs_allocated_def new_events_def split: lifecycle_splits)

lemma stopped_Server_start_bind_fails:
  "fst (Server_start stopped_Server bind_fails_env) = Rejected (Error ''EADDRINUSE'') \<and>
   trace (snd (Server_start stopped_Server bind_fails_env)) =
     trace stopped_Server @ [ApiStop 0, ApiStart 1, HttpListen 8888, ApiStop 0]"
  by (simp add: lifecycle_defs stopped_Server_fields bind_fails_env_def)

theorem failed_start_keeps_api_witness:
  "\<not> isRunning stopped_Server \<and> refs_allocated stopped_Server \<and>
   fst (Server_start stopped_Server bind_fails_env) = Rejected (Error ''EADDRINUSE'') \<and>
   api stopped_Server = Some 0 \<and> next_ref stopped_Server = 1 \<and>
   api (snd (Server_start stopped_Server bind_fails_env)) = Some 0 \<and>
   ApiStop 0 \<in> set (new_events stopped_Server (snd (Server_start stopped_Server bind_fails_env)))"
proof -
  have h1: "\<not> isRunning stopped_Server"
    by (simp add: isRunning_def stopped_Server_fields)
  have h2: "refs_allocated stopped_Server"
    by (simp add: refs_allocated_def stopped_Server_fields)
  have h3: "fst (Server_start stopped_Server bind_fails_env) = Rejected (Error ''EADDRINUSE'')"
    by (simp add: stopped_Server_start_bind_fails)
  have a: "api stopped_Server = Some 0" "next_ref stopped_Server = 1"
    by (simp_all add: api_def stopped_Server_fields)
  have ev: "ApiStop 0 \<in> set (new_events stopped_Server (snd (Server_start stopped_Server bind_fails_env)))"
    by (simp add: new_events_def stopped_Server_start_bind_fails)
  note w = failed_start_keeps_api [OF h1 h2 h3, THEN conjunct1]
  show ?thesis
    using h1 h2 h3 a ev w by simp
qed

text \<open>
  C9. For a running Server, when \<open>stop()\<close> resolves \<open>true\<close>, \<open>isRunning\<close> is false
  afterwards and \<open>api\<close> returns the same reference as before the call; the
  ApiServer it refers to is no longer running.
\<close>

theorem Server_stop_keeps_api:
  assumes "isRunning s" and "fst (Server_stop s c) = Resolved True"
  shows "\<not> isRunning (snd (Server_stop s c)) \<and> api (snd (Server_stop s c)) = api s \<and>
         (\<forall>r. api s = Some r \<longrightarrow> \<not> ApiServer_isRunning (apis (snd (Server_stop s c)) r))"
  using assms by (auto simp: lifecycle_defs split: lifecycle_splits)

theorem Server_stop_keeps_api_witness:
  "isRunning running_Server \<and>
   fst (Server_stop running_Server (CloseCallback None)) = Resolved True \<and>
   api running_Server = Some 0 \<and>
   \<not> isRunning (snd (Server_stop running_Server (CloseCallback None))) \<and>
   api (snd (Server_stop running_Server (CloseCallback None))) = Some 0 \<and>
   \<not> ApiServer_isRunning (apis (snd (Server_stop running_Server (CloseCallback None))) 0)"
proof -
  have h1: "isRunning running_Server"
    by (simp add: isRunning_def running_Server_fields)
  have h2: "fst (Server_stop running_Server (CloseCallback None)) = Resolved True"
    by (simp add: Server_stop_def disposeOldApi_def ApiServer_stop_def log_event_def
        isRunning_def running_Server_fields Let_def)
  have a: "api running_Server = Some 0"
    by (simp add: api_def running_Server_fields)
  note w = Server_stop_keeps_api [OF h1 h2]
  show ?thesis
    using h1 h2 a w by simp
qed

section \<open>Request handling theorems\<close>

lemmas request_defs =
  GET_root_def initializeApp_def Express_def app_get_def getRequestHandlerSafe_def
  root_handler_def sendJsonResult_def contentType_def send_def sendStatus_def
  new_response_def Let_def

lemma string_of_int_0: "string_of_int 0 = ''0''"
  by (simp add: string_of_int_def string_of_nat.simps [of 0] digit_char_def)

lemma string_of_nat_54321: "string_of_nat 54321 = ''54321''"
  by (simp add: string_of_nat.simps [of 54321] string_of_nat.simps [of 5432]
      string_of_nat.simps [of 543] string_of_nat.simps [of 54] string_of_nat.simps [of 5]
      digit_char_def)

text \<open>A string without characters to escape is quoted by putting it between quotes.\<close>

lemma JSON_quote_plain:
  "\<forall>c \<in> set s. escape_char c = [c] \<Longrightarrow> JSON_quote s = CHR 0x22 # s @ [CHR 0x22]"
  by (induction s) (simp_all add: JSON_quote_def)

lemma quote_code: "JSON_quote ''code'' = CHR 0x22 # ''code'' @ [CHR 0x22]"
  by (simp add: JSON_quote_def escape_char_def)

lemma quote_msg: "JSON_quote ''msg'' = CHR 0x22 # ''msg'' @ [CHR 0x22]"
  by (simp add: JSON_quote_def escape_char_def)

lemma quote_data: "JSON_quote ''data'' = CHR 0x22 # ''data'' @ [CHR 0x22]"
  by (simp add: JSON_quote_def escape_char_def)

lemma quote_now: "JSON_quote ''now'' = CHR 0x22 # ''now'' @ [CHR 0x22]"
  by (simp add: JSON_quote_def escape_char_def)

lemma quote_you: "JSON_quote ''you'' = CHR 0x22 # ''you'' @ [CHR 0x22]"
  by (simp add: JSON_quote_def escape_char_def)

lemmas quote_keys = quote_code quote_msg quote_data quote_now quote_you

text \<open>A property that is \<open>undefined\<close> is left out; one that is \<open>null\<close> is written.\<close>

lemma stringify_msg_undefined:
  \<open>JSON_stringify (JObj [(''code'', JNum 0), (''msg'', JUndefined), (''data'', JNull)]) =
     Some ''{"code":0,"data":null}''\<close>
  by (simp add: quote_keys string_of_int_0)

lemma stringify_msg_null:
  \<open>JSON_stringify (JObj [(''code'', JNum 0), (''msg'', JNull), (''data'', JNull)]) =
     Some ''{"code":0,"msg":null,"data":null}''\<close>
  by (simp add: quote_keys string_of_int_0)

text \<open>The whole response to \<open>GET /\<close>.\<close>

lemma GET_root_response:
  "GET_root this req =
     Some (\<lparr>statusCode = 200, content_type = Some ''application/json; charset=utf-8'',
            body = Some (envelope_without_msg (utc_now req) (you_of req)),
            headersSent = True, hasSendJsonResult = True\<rparr>, Inr JUndefined)"
  by (simp add: request_defs envelope_without_msg_def quote_keys string_of_int_0)

lemma you_of_sample_request: "you_of sample_request = ''127.0.0.1:54321''"
  by (simp add: you_of_def sample_request_def string_of_nat_54321)

lemma envelope_without_msg_sample:
  \<open>envelope_without_msg (utc_now sample_request) (you_of sample_request) =
     ''{"code":0,"data":{"now":"2017-11-05T10:00:00.000Z","you":"127.0.0.1:54321"}}''\<close>
proof -
  have q1: "JSON_quote ''2017-11-05T10:00:00.000Z'' = CHR 0x22 # ''2017-11-05T10:00:00.000Z'' @ [CHR 0x22]"
    by (rule JSON_quote_plain) (simp add: escape_char_def)
  have q2: "JSON_quote ''127.0.0.1:54321'' = CHR 0x22 # ''127.0.0.1:54321'' @ [CHR 0x22]"
    by (rule JSON_quote_plain) (simp add: escape_char_def)
  have now: "utc_now sample_request = ''2017-11-05T10:00:00.000Z''"
    by (simp add: sample_request_def)
  show ?thesis
    by (simp add: envelope_without_msg_def you_of_sample_request now q1 q2)
qed

lemma GET_root_body_sample:
  \<open>GET_root_body 0 sample_request =
     Some ''{"code":0,"data":{"now":"2017-11-05T10:00:00.000Z","you":"127.0.0.1:54321"}}''\<close>
  by (simp add: GET_root_body_def GET_root_response envelope_without_msg_sample)

subsection \<open>Claims\<close>

text \<open>
  C1, as the specification states it, fails: for the request \<open>sample_request\<close> the
  body sent is not the envelope with \<open>"msg":null\<close>.
\<close>

theorem GET_root_msg_null_counterexample:
  "GET_root_body 0 sample_request \<noteq>
     Some (spec_envelope (utc_now sample_request) (you_of sample_request))"
proof -
  have now: "utc_now sample_request = ''2017-11-05T10:00:00.000Z''"
    by (simp add: sample_request_def)
  show ?thesis
    by (simp add: GET_root_body_sample spec_envelope_def you_of_sample_request now)
qed

text \<open>
  C1, amended. Every request \<open>GET /\<close> is answered without an exception, with
  status 200, content type \<open>application/json; charset=utf-8\<close>, and the body
  \<open>{"code":0,"data":{"now":<timestamp>,"you":<address:port>}}\<close> with both strings
  JSON-quoted: the body has no \<open>msg\<close> property.
\<close>

theorem GET_root_envelope:
  "\<exists>resp. GET_root this req = Some (resp, Inr JUndefined) \<and>
      statusCode resp = 200 \<and>
      content_type resp = Some ''application/json; charset=utf-8'' \<and>
      headersSent resp \<and>
      body resp = Some (envelope_without_msg (utc_now req) (you_of req))"
  by (simp add: GET_root_response)

theorem GET_root_envelope_witness:
  \<open>\<exists>resp. GET_root 0 sample_request = Some (resp, Inr JUndefined) \<and>
      statusCode resp = 200 \<and>
      content_type resp = Some ''application/json; charset=utf-8'' \<and>
      body resp =
        Some ''{"code":0,"data":{"now":"2017-11-05T10:00:00.000Z","you":"127.0.0.1:54321"}}''\<close>
  using GET_root_envelope [of 0 sample_request]
  by (simp only: envelope_without_msg_sample) blast

text \<open>
  C6. If the wrapped handler throws, the safe handler returns normally: no
  exception leaves it. It calls \<open>sendStatus(500)\<close> on the response as the handler
  left it; when that succeeds the response carries status 500, and when that
  throws as well the second error is dropped and the response stays as it was.
\<close>

theorem safe_handler_contains_throw:
  assumes "h (case ta of None \<Rightarrow> ThisObj me | Some t \<Rightarrow> t) req
             (resp\<lparr>hasSendJsonResult := True\<rparr>) = (resp1, Inl e)"
  shows "snd (getRequestHandlerSafe me (Some h) ta req resp) = Inr JUndefined \<and>
         (\<forall>resp2. sendStatus 500 resp1 = Inr resp2 \<longrightarrow>
            fst (getRequestHandlerSafe me (Some h) ta req resp) = resp2 \<and>
            statusCode resp2 = 500 \<and> headersSent resp2) \<and>
         (\<forall>e2. sendStatus 500 resp1 = Inl e2 \<longrightarrow>
            fst (getRequestHandlerSafe me (Some h) ta req resp) = resp1)"
  using assms
  by (auto simp: getRequestHandlerSafe_def sendStatus_def split: sum.splits option.splits if_splits)

theorem safe_handler_contains_throw_witness:
  "throwing_handler (ThisObj 0) sample_request (new_response\<lparr>hasSendJsonResult := True\<rparr>) =
     (new_response\<lparr>hasSendJsonResult := True\<rparr>, Inl (Error ''boom'')) \<and>
   snd (getRequestHandlerSafe 0 (Some throwing_handler) None sample_request new_response) =
     Inr JUndefined \<and>
   statusCode (fst (getRequestHandlerSafe 0 (Some throwing_handler) None sample_request new_response)) = 500 \<and>
   snd (send_then_throw_handler (ThisObj 0) sample_request (new_response\<lparr>hasSendJsonResult := True\<rparr>)) =
     Inl (Error ''boom'') \<and>
   snd (getRequestHandlerSafe 0 (Some send_then_throw_handler) None sample_request new_response) =
     Inr JUndefined \<and>
   statusCode (fst (getRequestHandlerSafe 0 (Some send_then_throw_handler) None sample_request new_response)) = 200 \<and>
   body (fst (getRequestHandlerSafe 0 (Some send_then_throw_handler) None sample_request new_response)) =
     Some ''partial''"
proof -
  let ?r = "new_response\<lparr>hasSendJsonResult := True\<rparr>"
  let ?p = "new_response\<lparr>hasSendJsonResult := True, content_type := Some ''application/octet-stream'',
              body := Some ''partial'', headersSent := True\<rparr>"
  have t1: "throwing_handler (case None of None \<Rightarrow> ThisObj 0 | Some t \<Rightarrow> t) sample_request ?r =
              (?r, Inl (Error ''boom''))"
    by (simp add: throwing_handler_def)
  have t2: "send_then_throw_handler (case None of None \<Rightarrow> ThisObj 0 | Some t \<Rightarrow> t) sample_request ?r =
              (?p, Inl (Error ''boom''))"
    by (simp add: send_then_throw_handler_def send_def new_response_def)
  have s1: "sendStatus 500 ?r =
              Inr (?r\<lparr>statusCode := 500, content_type := Some ''text/plain; charset=utf-8'',
                      body := Some (status_text 500), headersSent := True\<rparr>)"
    by (simp add: sendStatus_def new_response_def)
  have s2: "sendStatus 500 ?p = Inl headers_sent_error"
    by (simp add: sendStatus_def)
  note w1 = safe_handler_contains_throw
    [where h = throwing_handler and ta = None and me = 0 and req = sample_request
       and resp = new_response, OF t1]
  note w2 = safe_handler_contains_throw
    [where h = send_then_throw_handler and ta = None and me = 0 and req = sample_request
       and resp = new_response, OF t2]
  have a: "snd (getRequestHandlerSafe 0 (Some throwing_handler) None sample_request new_response) =
             Inr JUndefined"
    by (rule w1 [THEN conjunct1])
  have b: "statusCode (fst (getRequestHandlerSafe 0 (Some throwing_handler) None sample_request new_response)) = 500"
    using w1 [THEN conjunct2, THEN conjunct1, rule_format, OF s1] by simp
  have c: "snd (getRequestHandlerSafe 0 (Some send_then_throw_handler) None sample_request new_response) =
             Inr JUndefined"
    by (rule w2 [THEN conjunct1])
  have d: "fst (getRequestHandlerSafe 0 (Some send_then_throw_handler) None sample_request new_response) = ?p"
    by (rule w2 [THEN conjunct2, THEN conjunct2, rule_format, OF s2])
  have e: "statusCode ?p = 200" "body ?p = Some ''partial''"
    by (simp_all add: new_response_def)
  show ?thesis
    using t1 t2 a b c d e by simp
qed

text \<open>
  C10. With \<open>thisArgs\<close> omitted the handler is applied to the ApiServer as \<open>this\<close>;
  with \<open>thisArgs\<close> passed the handler is applied to exactly that value, whatever
  it is. In particular a handler sees \<open>undefined\<close> when \<open>undefined\<close> is passed, and
  sees the ApiServer when nothing is passed.
\<close>

theorem getRequestHandlerSafe_this_binding:
  "getRequestHandlerSafe me (Some h) None =
     getRequestHandlerSafe me (Some (\<lambda>_. h (ThisObj me))) ta \<and>
   getRequestHandlerSafe me (Some h) (Some t) =
     getRequestHandlerSafe me (Some (\<lambda>_. h t)) ta \<and>
   snd (getRequestHandlerSafe me (Some this_probe) (Some (ThisVal JUndefined)) req resp) =
     Inr (JBool True) \<and>
   snd (getRequestHandlerSafe me (Some this_probe) None req resp) = Inr (JBool False)"
  by (simp add: getRequestHandlerSafe_def this_probe_def)

end
